theory Spec2Isabelle
  imports Complex_Main "HOL-Library.Stream"
begin

section \<open>Numbers and optional values\<close>

text \<open>
  The library is \<^verbatim>\<open>src/backoff.ts\<close>, which holds two forms of \<^verbatim>\<open>exponentialGenerator\<close>
  and of \<^verbatim>\<open>retry\<close>. The embedding follows the most evolved form (the generator with the
  \<^verbatim>\<open>jitter\<close> parameter, the loop that throws \<^verbatim>\<open>originalError\<close>), the one the test-suite
  \<^verbatim>\<open>test/backoff_test.ts\<close> exercises; the earlier form is embedded after it, under
  names ending in \<open>_earlier\<close>.

  In the generator and the loop a JavaScript \<^verbatim>\<open>number\<close> is modelled as a real:
  arithmetic is exact, and the rounding of doubles, their overflow to Infinity and NaN
  are outside that model. A parameter of type \<^verbatim>\<open>number | undefined\<close> is a
  \<open>real option\<close>, with \<open>None\<close> for \<^verbatim>\<open>undefined\<close>. The two clamps of the generator are
  embedded a second time on numbers that include NaN and the two infinities, for the
  properties that depend on them.
\<close>

text \<open>
  Truthiness of a \<^verbatim>\<open>number | undefined\<close>, as tested by \<^verbatim>\<open>maxValue ? _ : _\<close> and
  \<^verbatim>\<open>minValue && _\<close>: \<^verbatim>\<open>undefined\<close> and \<^verbatim>\<open>0\<close> are falsy, every other number is truthy.
\<close>

fun truthy :: "real option \<Rightarrow> bool" where
  "truthy None = False"
| "truthy (Some x) = (x \<noteq> 0)"

text \<open>\<^verbatim>\<open>Math.round\<close>: the nearest integer, a tie going towards plus infinity.\<close>

definition Math_round :: "real \<Rightarrow> real" where
  "Math_round x = of_int \<lfloor>x + 1 / 2\<rfloor>"

text \<open>The parameter \<^verbatim>\<open>jitter: boolean | number | undefined\<close>.\<close>

datatype jitter = Jitter_undefined | Jitter_boolean bool | Jitter_number real

section \<open>The delay sequence generator\<close>

text \<open>
  \<^verbatim>\<open>
  let n = 0;
  // handle contradicting params
  if (minValue && maxValue && minValue > maxValue) {
    minValue = maxValue;
  }
  while (true) {
    let value = factor * (base ** n);
    value = maxValue ? Math.min(maxValue, value) : value;
    value = minValue ? Math.max(minValue, value) : value;
    if (jitter === true) {
      value = Math.round(Math.random() * value);
    } else if (typeof jitter === 'number' && jitter >= 0 && jitter <= 1) {
      value = Math.round((1 - (jitter as number) * Math.random()) * value);
    }
    yield value;
    n++;
  }
  \<close>
\<close>

text \<open>The reassignment of \<^verbatim>\<open>minValue\<close> before the loop: the floor the loop works with.\<close>

fun contradicting :: "real option \<Rightarrow> real option \<Rightarrow> bool" where
  "contradicting (Some mx) (Some mn) = (truthy (Some mn) \<and> truthy (Some mx) \<and> mn > mx)"
| "contradicting _ _ = False"

definition effective_minValue :: "real option \<Rightarrow> real option \<Rightarrow> real option" where
  "effective_minValue maxValue minValue =
     (if contradicting maxValue minValue then maxValue else minValue)"

text \<open>The two clamping assignments of the loop body.\<close>

fun ceiling_clamp :: "real option \<Rightarrow> real \<Rightarrow> real" where
  "ceiling_clamp None v = v"
| "ceiling_clamp (Some mx) v = (if truthy (Some mx) then min mx v else v)"

fun floor_clamp :: "real option \<Rightarrow> real \<Rightarrow> real" where
  "floor_clamp None v = v"
| "floor_clamp (Some mn) v = (if truthy (Some mn) then max mn v else v)"

text \<open>
  The value of the loop variable \<^verbatim>\<open>value\<close> after the two clamps, at exponent \<open>n\<close>, for
  the floor \<open>minValue\<close> the loop is entered with. The raw value is the exact product: this
  is the value of the code as long as \<^verbatim>\<open>factor * (base ** n)\<close> neither overflows nor is
  NaN.
\<close>

definition clamped :: "real \<Rightarrow> real \<Rightarrow> real option \<Rightarrow> real option \<Rightarrow> nat \<Rightarrow> real" where
  "clamped base factor maxValue minValue n =
     floor_clamp minValue (ceiling_clamp maxValue (factor * base ^ n))"

text \<open>
  The jitter step. \<open>random\<close> is the result of the call \<^verbatim>\<open>Math.random()\<close> of this pull;
  it is not drawn when neither branch is taken.
\<close>

fun apply_jitter :: "jitter \<Rightarrow> real \<Rightarrow> real \<Rightarrow> real" where
  "apply_jitter (Jitter_boolean True) random v = Math_round (random * v)"
| "apply_jitter (Jitter_number j) random v =
     (if 0 \<le> j \<and> j \<le> 1 then Math_round ((1 - j * random) * v) else v)"
| "apply_jitter _ random v = v"

text \<open>
  The \<^verbatim>\<open>while (true)\<close> loop of the generator function, from exponent \<open>n\<close> on: a lazy,
  infinite sequence. \<open>random n\<close> is the draw of \<^verbatim>\<open>Math.random()\<close> made in the pull with
  exponent \<open>n\<close>.
\<close>

primcorec generator_loop ::
  "real \<Rightarrow> real \<Rightarrow> real option \<Rightarrow> real option \<Rightarrow> jitter \<Rightarrow> (nat \<Rightarrow> real) \<Rightarrow> nat \<Rightarrow> real stream"
where
  "generator_loop base factor maxValue minValue jitter random n =
     apply_jitter jitter (random n) (clamped base factor maxValue minValue n)
       ## generator_loop base factor maxValue minValue jitter random (Suc n)"

definition exponentialGenerator ::
  "real \<Rightarrow> real \<Rightarrow> real option \<Rightarrow> real option \<Rightarrow> jitter \<Rightarrow> (nat \<Rightarrow> real) \<Rightarrow> real stream"
where
  "exponentialGenerator base factor maxValue minValue jitter random =
     generator_loop base factor maxValue (effective_minValue maxValue minValue) jitter random 0"

text \<open>
  The deterministic (pre-jitter) value of pull \<open>n\<close>: the loop variable \<^verbatim>\<open>value\<close> just
  before the jitter step.
\<close>

definition deterministicValue ::
  "real \<Rightarrow> real \<Rightarrow> real option \<Rightarrow> real option \<Rightarrow> nat \<Rightarrow> real"
where
  "deterministicValue base factor maxValue minValue n =
     clamped base factor maxValue (effective_minValue maxValue minValue) n"

section \<open>The clamps on numbers with NaN and infinities\<close>

text \<open>
  A double is NaN, minus infinity, a finite number or plus infinity. The raw value
  \<^verbatim>\<open>factor * (base ** n)\<close> of a pull can be any of them: \<^verbatim>\<open>2 ** 1024\<close> is \<^verbatim>\<open>Infinity\<close>,
  and \<^verbatim>\<open>0 * Infinity\<close> is \<^verbatim>\<open>NaN\<close>. The arithmetic of doubles itself is not embedded:
  the raw value of a pull is an argument of the definitions below.
\<close>

datatype number = NaN | Negative_Infinity | Finite real | Infinity

text \<open>\<^verbatim>\<open>a <= b\<close> and \<^verbatim>\<open>a < b\<close>: false as soon as one side is NaN.\<close>

fun number_le :: "number \<Rightarrow> number \<Rightarrow> bool" where
  "number_le NaN b = False"
| "number_le a NaN = False"
| "number_le Negative_Infinity b = True"
| "number_le a Infinity = True"
| "number_le (Finite x) (Finite y) = (x \<le> y)"
| "number_le a b = False"

fun number_less :: "number \<Rightarrow> number \<Rightarrow> bool" where
  "number_less NaN b = False"
| "number_less a NaN = False"
| "number_less Infinity b = False"
| "number_less a Negative_Infinity = False"
| "number_less (Finite x) (Finite y) = (x < y)"
| "number_less a b = True"

text \<open>\<^verbatim>\<open>Math.min\<close> and \<^verbatim>\<open>Math.max\<close> of two numbers: NaN as soon as one of them is NaN.\<close>

fun Math_min :: "number \<Rightarrow> number \<Rightarrow> number" where
  "Math_min NaN b = NaN"
| "Math_min a NaN = NaN"
| "Math_min a b = (if number_le a b then a else b)"

fun Math_max :: "number \<Rightarrow> number \<Rightarrow> number" where
  "Math_max NaN b = NaN"
| "Math_max a NaN = NaN"
| "Math_max a b = (if number_le a b then b else a)"

text \<open>Truthiness: \<^verbatim>\<open>undefined\<close>, NaN and \<open>0\<close> are falsy, every other number is truthy.\<close>

fun truthy_number :: "number option \<Rightarrow> bool" where
  "truthy_number None = False"
| "truthy_number (Some NaN) = False"
| "truthy_number (Some (Finite x)) = (x \<noteq> 0)"
| "truthy_number (Some a) = True"

text \<open>
  \<^verbatim>\<open>if (minValue && maxValue && minValue > maxValue) { minValue = maxValue; }\<close>
\<close>

definition effective_minValue_number :: "number option \<Rightarrow> number option \<Rightarrow> number option" where
  "effective_minValue_number maxValue minValue =
     (case (minValue, maxValue) of
        (Some mn, Some mx) \<Rightarrow>
          if truthy_number (Some mn) \<and> truthy_number (Some mx) \<and> number_less mx mn
          then maxValue else minValue
      | _ \<Rightarrow> minValue)"

text \<open>
  \<^verbatim>\<open>value = maxValue ? Math.min(maxValue, value) : value;\<close> and
  \<^verbatim>\<open>value = minValue ? Math.max(minValue, value) : value;\<close>
\<close>

fun ceiling_clamp_number :: "number option \<Rightarrow> number \<Rightarrow> number" where
  "ceiling_clamp_number None v = v"
| "ceiling_clamp_number (Some mx) v = (if truthy_number (Some mx) then Math_min mx v else v)"

fun floor_clamp_number :: "number option \<Rightarrow> number \<Rightarrow> number" where
  "floor_clamp_number None v = v"
| "floor_clamp_number (Some mn) v = (if truthy_number (Some mn) then Math_max mn v else v)"

text \<open>
  The pre-jitter value of a pull whose raw value \<^verbatim>\<open>factor * (base ** n)\<close> is \<open>raw\<close>, for
  the bounds the generator is called with.
\<close>

definition deterministicValue_number :: "number option \<Rightarrow> number option \<Rightarrow> number \<Rightarrow> number" where
  "deterministicValue_number maxValue minValue raw =
     floor_clamp_number (effective_minValue_number maxValue minValue)
       (ceiling_clamp_number maxValue raw)"

section \<open>The retry driver\<close>

text \<open>
  The effects of one run of \<^verbatim>\<open>retry\<close> that a caller can observe, in the order in which
  they happen: an invocation \<^verbatim>\<open>targetFunction.apply(thisArg, args)\<close> with the way it
  settled (\<open>Inl\<close> the error it threw, \<open>Inr\<close> the value it returned), a notification
  \<^verbatim>\<open>thisArg.emit(event, targetFunction.name, args, payload)\<close>, and a call
  \<^verbatim>\<open>sleepFunction(delayMs)\<close>.
\<close>

datatype ('e, 'r, 'a) event =
    Invoke "'a list" "'e + 'r"
  | Emit string string "'a list" real
  | Sleep real

text \<open>
  The binding context \<^verbatim>\<open>thisArg\<close>: \<^verbatim>\<open>null\<close>, or an object that has an \<^verbatim>\<open>emit\<close> method
  or has none. The program state the target, the listeners and the sleep function work
  on has type \<open>'s\<close>; \<^verbatim>\<open>emit\<close> runs the listeners, which may change it. Listeners, the
  predicate and the sleep function are taken to return normally.
\<close>

type_synonym ('a, 's) emit = "string \<Rightarrow> string \<Rightarrow> 'a list \<Rightarrow> real \<Rightarrow> 's \<Rightarrow> 's"

datatype ('a, 's) receiver = Null | Object "('a, 's) emit option"

text \<open>The test \<^verbatim>\<open>thisArg && thisArg.emit\<close>.\<close>

fun emit_of :: "('a, 's) receiver \<Rightarrow> ('a, 's) emit option" where
  "emit_of Null = None"
| "emit_of (Object e) = e"

text \<open>
  \<^verbatim>\<open>if (thisArg && thisArg.emit) { thisArg.emit(ev, targetFunction.name, args, payload); }\<close>:
  the program state after it, and what it adds to the observable effects.
\<close>

definition notify ::
  "('a, 's) receiver \<Rightarrow> string \<Rightarrow> string \<Rightarrow> 'a list \<Rightarrow> real \<Rightarrow> 's \<Rightarrow> 's"
where
  "notify thisArg ev fname args payload s =
     (case emit_of thisArg of None \<Rightarrow> s | Some emit \<Rightarrow> emit ev fname args payload s)"

definition notified ::
  "('a, 's) receiver \<Rightarrow> string \<Rightarrow> string \<Rightarrow> 'a list \<Rightarrow> real \<Rightarrow> ('e, 'r, 'a) event list"
where
  "notified thisArg ev fname args payload =
     (case emit_of thisArg of None \<Rightarrow> [] | Some emit \<Rightarrow> [Emit ev fname args payload])"

text \<open>The test \<^verbatim>\<open>!predicate || !predicate(err, args)\<close> of the catch block.\<close>

fun declines :: "('e \<Rightarrow> 'a list \<Rightarrow> bool) option \<Rightarrow> 'e \<Rightarrow> 'a list \<Rightarrow> bool" where
  "declines None err args = True"
| "declines (Some p) err args = (\<not> p err args)"

text \<open>
  The default sleep function resolves after a timer of \<^verbatim>\<open>ms\<close> milliseconds; it leaves
  the program state as it is.
\<close>

definition sleep :: "real \<Rightarrow> 's \<Rightarrow> 's" where
  "sleep ms s = s"

text \<open>A run: how the promise settles, the final program state, the observable effects.\<close>

type_synonym ('e, 'r, 'a, 's) run = "('e + 'r) \<times> 's \<times> ('e, 'r, 'a) event list"

definition outcome :: "('e, 'r, 'a, 's) run \<Rightarrow> 'e + 'r" where
  "outcome r = fst r"

definition final_state :: "('e, 'r, 'a, 's) run \<Rightarrow> 's" where
  "final_state r = fst (snd r)"

definition trace :: "('e, 'r, 'a, 's) run \<Rightarrow> ('e, 'r, 'a) event list" where
  "trace r = snd (snd r)"

fun after :: "('e, 'r, 'a) event list \<Rightarrow> ('e, 'r, 'a, 's) run \<Rightarrow> ('e, 'r, 'a, 's) run" where
  "after evs (out, s, tr) = (out, s, evs @ tr)"

text \<open>
  The loop of \<^verbatim>\<open>retry\<close>, entered with the counter \<^verbatim>\<open>numRetries\<close> and the rest of the
  delay sequence:
  \<^verbatim>\<open>
  for (const delayMs of exponentialGenerator(...)) {
    try {
      const result = await targetFunction.apply(thisArg, args);
      if (thisArg && thisArg.emit) {
        thisArg.emit('retries', targetFunction.name, args, numRetries);
      }
      return result;
    } catch (err) {
      originalError = err;
      if (!predicate || !predicate(err, args)) {
        throw err;
      }
    }
    numRetries++;
    if (numRetries > maxRetries) {
      throw originalError;
    }
    if (thisArg && thisArg.emit) {
      thisArg.emit('throttle', targetFunction.name, args, delayMs);
    }
    await sleepFunction(delayMs);
  }
  \<close>
\<close>

function retry_loop ::
  "int \<Rightarrow> ('e \<Rightarrow> 'a list \<Rightarrow> bool) option \<Rightarrow> (real \<Rightarrow> 's \<Rightarrow> 's)
     \<Rightarrow> ('a list \<Rightarrow> 's \<Rightarrow> ('e + 'r) \<times> 's) \<Rightarrow> string \<Rightarrow> ('a, 's) receiver \<Rightarrow> 'a list
     \<Rightarrow> int \<Rightarrow> real stream \<Rightarrow> 's \<Rightarrow> ('e, 'r, 'a, 's) run"
where
  "retry_loop maxRetries predicate sleepFunction targetFunction fname thisArg args
       numRetries delays s =
     (let delayMs = shd delays in
      case targetFunction args s of
        (Inr result, s1) \<Rightarrow>
          (Inr result, notify thisArg ''retries'' fname args (of_int numRetries) s1,
           Invoke args (Inr result) # notified thisArg ''retries'' fname args (of_int numRetries))
      | (Inl err, s1) \<Rightarrow>
          (let originalError = err in
           if declines predicate err args then (Inl err, s1, [Invoke args (Inl err)])
           else if numRetries + 1 > maxRetries
             then (Inl originalError, s1, [Invoke args (Inl err)])
           else
             (let s2 = notify thisArg ''throttle'' fname args delayMs s1;
                  s3 = sleepFunction delayMs s2
              in after (Invoke args (Inl err) # notified thisArg ''throttle'' fname args delayMs
                          @ [Sleep delayMs])
                   (retry_loop maxRetries predicate sleepFunction targetFunction fname
                      thisArg args (numRetries + 1) (stl delays) s3))))"
  by pat_completeness auto
termination
  by (relation "measure (\<lambda>(maxRetries, predicate, sleepFunction, targetFunction, fname,
        thisArg, args, numRetries, delays, s). nat (maxRetries + 1 - numRetries))") auto

section \<open>The earlier form of the generator and of the loop\<close>

text \<open>
  \<^verbatim>\<open>
  let n = 0;
  while (true) {
    const current = factor * (base ** n);
    let value = (!maxValue || current < maxValue) ? current : maxValue;
    value = minValue ? Math.max(minValue, value) : value;
    if (fullJitter) {
      value = Math.round(Math.random() * value);
    }
    yield value;
    n++;
  }
  \<close>
\<close>

fun ceiling_clamp_earlier :: "real option \<Rightarrow> real \<Rightarrow> real" where
  "ceiling_clamp_earlier None current = current"
| "ceiling_clamp_earlier (Some mx) current =
     (if \<not> truthy (Some mx) \<or> current < mx then current else mx)"

definition clamped_earlier :: "real \<Rightarrow> real \<Rightarrow> real option \<Rightarrow> real option \<Rightarrow> nat \<Rightarrow> real" where
  "clamped_earlier base factor maxValue minValue n =
     floor_clamp minValue (ceiling_clamp_earlier maxValue (factor * base ^ n))"

primcorec generator_loop_earlier ::
  "real \<Rightarrow> real \<Rightarrow> real option \<Rightarrow> real option \<Rightarrow> bool \<Rightarrow> (nat \<Rightarrow> real) \<Rightarrow> nat \<Rightarrow> real stream"
where
  "generator_loop_earlier base factor maxValue minValue fullJitter random n =
     (if fullJitter then Math_round (random n * clamped_earlier base factor maxValue minValue n)
      else clamped_earlier base factor maxValue minValue n)
       ## generator_loop_earlier base factor maxValue minValue fullJitter random (Suc n)"

definition exponentialGenerator_earlier ::
  "real \<Rightarrow> real \<Rightarrow> real option \<Rightarrow> real option \<Rightarrow> bool \<Rightarrow> (nat \<Rightarrow> real) \<Rightarrow> real stream"
where
  "exponentialGenerator_earlier base factor maxValue minValue fullJitter random =
     generator_loop_earlier base factor maxValue minValue fullJitter random 0"

text \<open>
  What the earlier loop throws: the error of the target, or a new \<^verbatim>\<open>RetryError\<close>, whose
  message is made of \<^verbatim>\<open>maxRetries\<close> and \<^verbatim>\<open>targetFunction.name\<close>.
\<close>

datatype 'e thrown = Thrown 'e | RetryError int string

text \<open>
  \<^verbatim>\<open>
  for (const delayMs of exponentialGenerator(...)) {
    try {
      const result = await targetFunction.apply(thisArg, args);
      if (thisArg && thisArg.emit) {
        thisArg.emit('retries', targetFunction.name, args, numRetries);
      }
      return result;
    } catch (err) {
      if (!predicate || !predicate(err, args)) {
        throw err;
      }
    }
    numRetries++;
    if (numRetries > maxRetries) {
      throw new RetryError(`Maximum of ${maxRetries} retries reached when calling target ...`);
    }
    await sleepFunction(delayMs);
  }
  \<close>
  An invocation is recorded with the error the target threw, as in the later form.
\<close>

fun after_earlier ::
  "('e, 'r, 'a) event list \<Rightarrow> ('e thrown + 'r) \<times> 's \<times> ('e, 'r, 'a) event list
     \<Rightarrow> ('e thrown + 'r) \<times> 's \<times> ('e, 'r, 'a) event list"
where
  "after_earlier evs (out, s, tr) = (out, s, evs @ tr)"

function retry_loop_earlier ::
  "int \<Rightarrow> ('e \<Rightarrow> 'a list \<Rightarrow> bool) option \<Rightarrow> (real \<Rightarrow> 's \<Rightarrow> 's)
     \<Rightarrow> ('a list \<Rightarrow> 's \<Rightarrow> ('e + 'r) \<times> 's) \<Rightarrow> string \<Rightarrow> ('a, 's) receiver \<Rightarrow> 'a list
     \<Rightarrow> int \<Rightarrow> real stream \<Rightarrow> 's \<Rightarrow> ('e thrown + 'r) \<times> 's \<times> ('e, 'r, 'a) event list"
where
  "retry_loop_earlier maxRetries predicate sleepFunction targetFunction fname thisArg args
       numRetries delays s =
     (let delayMs = shd delays in
      case targetFunction args s of
        (Inr result, s1) \<Rightarrow>
          (Inr result, notify thisArg ''retries'' fname args (of_int numRetries) s1,
           Invoke args (Inr result) # notified thisArg ''retries'' fname args (of_int numRetries))
      | (Inl err, s1) \<Rightarrow>
          if declines predicate err args then (Inl (Thrown err), s1, [Invoke args (Inl err)])
          else if numRetries + 1 > maxRetries
            then (Inl (RetryError maxRetries fname), s1, [Invoke args (Inl err)])
          else
            after_earlier [Invoke args (Inl err), Sleep delayMs]
              (retry_loop_earlier maxRetries predicate sleepFunction targetFunction fname
                 thisArg args (numRetries + 1) (stl delays) (sleepFunction delayMs s1)))"
  by pat_completeness auto
termination
  by (relation "measure (\<lambda>(maxRetries, predicate, sleepFunction, targetFunction, fname,
        thisArg, args, numRetries, delays, s). nat (maxRetries + 1 - numRetries))") auto

section \<open>The options and the entry points\<close>

text \<open>
  \<^verbatim>\<open>BackoffOptions\<close>; an absent option is \<open>None\<close> (\<open>Jitter_undefined\<close> for
  \<^verbatim>\<open>fullJitter\<close>). \<^verbatim>\<open>maxRetries\<close> is taken to be an integer.
\<close>

record ('e, 'a, 's) BackoffOptions =
  maxRetries :: "int option"
  maxDelayMs :: "real option"
  minDelayMs :: "real option"
  base :: "real option"
  backoffFactor :: "real option"
  predicate :: "('e \<Rightarrow> 'a list \<Rightarrow> bool) option"
  fullJitter :: jitter
  sleepFunction :: "(real \<Rightarrow> 's \<Rightarrow> 's) option"

text \<open>A destructuring default \<^verbatim>\<open>{ x = d } = options\<close>.\<close>

fun default :: "'v \<Rightarrow> 'v option \<Rightarrow> 'v" where
  "default d None = d"
| "default d (Some v) = v"

text \<open>
  \<^verbatim>\<open>retry(options, targetFunction, thisArg, ...args)\<close>. \<open>fname\<close> is
  \<^verbatim>\<open>targetFunction.name\<close>, \<open>random\<close> gives the draws of \<^verbatim>\<open>Math.random()\<close> and \<open>s\<close> is
  the program state at the call.
  \<^verbatim>\<open>
  const { base = 2, maxRetries = 1, maxDelayMs, minDelayMs, backoffFactor = 50,
          predicate, fullJitter, sleepFunction = sleep } = options;
  let numRetries = 1;
  let originalError;
  \<close>
\<close>

definition delaySequence :: "('e, 'a, 's) BackoffOptions \<Rightarrow> (nat \<Rightarrow> real) \<Rightarrow> real stream" where
  "delaySequence options random =
     exponentialGenerator (default 2 (base options)) (default 50 (backoffFactor options))
       (maxDelayMs options) (minDelayMs options) (fullJitter options) random"

definition retry ::
  "('e, 'a, 's) BackoffOptions \<Rightarrow> ('a list \<Rightarrow> 's \<Rightarrow> ('e + 'r) \<times> 's) \<Rightarrow> string
     \<Rightarrow> ('a, 's) receiver \<Rightarrow> 'a list \<Rightarrow> (nat \<Rightarrow> real) \<Rightarrow> 's \<Rightarrow> ('e, 'r, 'a, 's) run"
where
  "retry options targetFunction fname thisArg args random s =
     retry_loop (default 1 (maxRetries options)) (predicate options)
       (default sleep (sleepFunction options)) targetFunction fname thisArg args 1
       (delaySequence options random) s"

text \<open>
  The earlier \<^verbatim>\<open>retry\<close> hands its option \<^verbatim>\<open>fullJitter\<close> to the earlier generator, which
  tests its truthiness (\<^verbatim>\<open>if (fullJitter)\<close>): \<^verbatim>\<open>true\<close> and every number other than \<open>0\<close> are
  truthy.
\<close>

fun truthy_jitter :: "jitter \<Rightarrow> bool" where
  "truthy_jitter Jitter_undefined = False"
| "truthy_jitter (Jitter_boolean b) = b"
| "truthy_jitter (Jitter_number j) = (j \<noteq> 0)"

definition retry_earlier ::
  "('e, 'a, 's) BackoffOptions \<Rightarrow> ('a list \<Rightarrow> 's \<Rightarrow> ('e + 'r) \<times> 's) \<Rightarrow> string
     \<Rightarrow> ('a, 's) receiver \<Rightarrow> 'a list \<Rightarrow> (nat \<Rightarrow> real) \<Rightarrow> 's
     \<Rightarrow> ('e thrown + 'r) \<times> 's \<times> ('e, 'r, 'a) event list"
where
  "retry_earlier options targetFunction fname thisArg args random s =
     retry_loop_earlier (default 1 (maxRetries options)) (predicate options)
       (default sleep (sleepFunction options)) targetFunction fname thisArg args 1
       (exponentialGenerator_earlier (default 2 (base options))
          (default 50 (backoffFactor options)) (maxDelayMs options) (minDelayMs options)
          (truthy_jitter (fullJitter options)) random) s"

section \<open>Observations on a trace\<close>

text \<open>What a caller counts in a trace.\<close>

fun is_Invoke :: "('e, 'r, 'a) event \<Rightarrow> bool" where
  "is_Invoke (Invoke args res) = True"
| "is_Invoke _ = False"

fun is_Sleep :: "('e, 'r, 'a) event \<Rightarrow> bool" where
  "is_Sleep (Sleep ms) = True"
| "is_Sleep _ = False"

fun is_Emit :: "('e, 'r, 'a) event \<Rightarrow> bool" where
  "is_Emit (Emit ev fname args payload) = True"
| "is_Emit _ = False"

definition attempts :: "('e, 'r, 'a) event list \<Rightarrow> nat" where
  "attempts tr = length (filter is_Invoke tr)"

definition sleeps :: "('e, 'r, 'a) event list \<Rightarrow> real list" where
  "sleeps tr = concat (map (\<lambda>ev. case ev of Sleep ms \<Rightarrow> [ms] | _ \<Rightarrow> []) tr)"

text \<open>The payloads of the notifications named \<open>name\<close>, in order.\<close>

definition emitted :: "string \<Rightarrow> ('e, 'r, 'a) event list \<Rightarrow> real list" where
  "emitted name tr =
     concat (map (\<lambda>ev. case ev of Emit ev' fname args payload \<Rightarrow> if ev' = name then [payload] else []
                          | _ \<Rightarrow> []) tr)"

section \<open>Callers: the fixtures of the test-suite\<close>

text \<open>
  \<^verbatim>\<open>const alwaysFalse = () => false; const alwaysTrue = () => true;\<close> and
  \<^verbatim>\<open>async function faultyCall() { throw new Error('foo'); }\<close>. An \<^verbatim>\<open>Error\<close> is
  modelled by its message.
\<close>

definition alwaysFalse :: "'e \<Rightarrow> 'a list \<Rightarrow> bool" where
  "alwaysFalse err context = False"

definition alwaysTrue :: "'e \<Rightarrow> 'a list \<Rightarrow> bool" where
  "alwaysTrue err context = True"

definition faultyCall :: "'a list \<Rightarrow> 's \<Rightarrow> (string + 'r) \<times> 's" where
  "faultyCall args s = (Inl ''foo'', s)"

text \<open>
  A target that always throws, each time a different error: the number of invocations
  made before, which is also the program state.
\<close>

definition countingCall :: "'a list \<Rightarrow> nat \<Rightarrow> (nat + 'r) \<times> nat" where
  "countingCall args s = (Inl s, Suc s)"

text \<open>
  The class \<^verbatim>\<open>Decotest extends EventEmitter\<close> of the test-suite: its fields, its two
  listeners, and its methods \<^verbatim>\<open>add\<close> and \<^verbatim>\<open>matchingCall\<close>.
  \<^verbatim>\<open>
  this.on('retries', (fname, args, numRetries) => { this.numRetries = numRetries; });
  this.on('throttle', (fname, args, delayMs) => { this.throttleMessages.push(delayMs); });

  async add(x: number): Promise<number> {
    this.numCalled++;
    if (this.numCalled <= this.numErrors) { throw new Error('bar'); }
    return x + this.offset;
  }
  async matchingCall(): Promise<void> { this.numCalled++; throw new Error('foo'); }
  \<close>
\<close>

record Decotest =
  offset :: real
  numErrors :: int
  numCalled :: int
  numRetries :: real
  throttleMessages :: "real list"

definition new_Decotest :: "int \<Rightarrow> Decotest" where
  "new_Decotest n =
     \<lparr>offset = 10, numErrors = n, numCalled = 0, numRetries = 0, throttleMessages = []\<rparr>"

definition Decotest_emit :: "(real, Decotest) emit" where
  "Decotest_emit ev fname args payload s =
     (if ev = ''retries'' then s\<lparr>numRetries := payload\<rparr>
      else if ev = ''throttle'' then s\<lparr>throttleMessages := throttleMessages s @ [payload]\<rparr>
      else s)"

text \<open>\<^verbatim>\<open>add\<close> is called with one argument \<^verbatim>\<open>x\<close>; further arguments are ignored.\<close>

fun Decotest_add :: "real list \<Rightarrow> Decotest \<Rightarrow> (string + real) \<times> Decotest" where
  "Decotest_add (x # xs) s =
     (let s1 = s\<lparr>numCalled := numCalled s + 1\<rparr>
      in if numCalled s1 \<le> numErrors s1 then (Inl ''bar'', s1) else (Inr (x + offset s1), s1))"

definition Decotest_matchingCall :: "real list \<Rightarrow> Decotest \<Rightarrow> (string + unit) \<times> Decotest" where
  "Decotest_matchingCall args s = (Inl ''foo'', s\<lparr>numCalled := numCalled s + 1\<rparr>)"

text \<open>
  \<^verbatim>\<open>backoffOptions = { backoffFactor: 1, maxRetries: 3, minDelayMs: 1, maxDelayMs: 2,
  predicate: () => true }\<close>
\<close>

definition Decotest_backoffOptions :: "(string, real, Decotest) BackoffOptions" where
  "Decotest_backoffOptions =
     \<lparr>maxRetries = Some 3, maxDelayMs = Some 2, minDelayMs = Some 1, base = None,
      backoffFactor = Some 1, predicate = Some (\<lambda>err context. True),
      fullJitter = Jitter_undefined, sleepFunction = None\<rparr>"

text \<open>The options object \<^verbatim>\<open>{}\<close>.\<close>

definition no_options :: "('e, 'a, 's) BackoffOptions" where
  "no_options =
     \<lparr>maxRetries = None, maxDelayMs = None, minDelayMs = None, base = None,
      backoffFactor = None, predicate = None, fullJitter = Jitter_undefined,
      sleepFunction = None\<rparr>"

section \<open>Properties of the generator\<close>

lemma generator_loop_snth:
  "generator_loop b f mx mn j rnd k !! n = apply_jitter j (rnd (k + n)) (clamped b f mx mn (k + n))"
  by (induction n arbitrary: k) simp_all

lemma exponentialGenerator_snth:
  "exponentialGenerator b f mx mn j rnd !! n = apply_jitter j (rnd n) (deterministicValue b f mx mn n)"
  by (simp add: exponentialGenerator_def deterministicValue_def generator_loop_snth)

lemma exponentialGenerator_shd:
  "shd (exponentialGenerator b f mx mn j rnd) = apply_jitter j (rnd 0) (deterministicValue b f mx mn 0)"
  using exponentialGenerator_snth [of b f mx mn j rnd 0] by simp

lemma Math_round_mono: "x \<le> y \<Longrightarrow> Math_round x \<le> Math_round y"
  by (simp add: Math_round_def floor_mono)

lemma Math_round_of_int: "Math_round (of_int k) = of_int k"
  unfolding Math_round_def by (simp add: floor_unique)

lemma Math_round_Ints: "x \<in> \<int> \<Longrightarrow> Math_round x = x"
  by (auto elim!: Ints_cases simp: Math_round_of_int)

text \<open>
  On finite bounds and a finite raw value the clamps on numbers give the value of the
  generator on reals.
\<close>

lemma deterministicValue_number_Finite:
  "deterministicValue_number (map_option Finite mx) (map_option Finite mn) (Finite (f * b ^ n))
     = Finite (deterministicValue b f mx mn n)"
  by (cases mx; cases mn)
     (auto simp: deterministicValue_number_def deterministicValue_def clamped_def
        effective_minValue_number_def effective_minValue_def min_def max_def)

text \<open>
  Claim C4. Without ceiling, floor and jitter (\<^verbatim>\<open>exponentialGenerator(base, factor,
  undefined, undefined, false)\<close>), the value of pull \<open>n\<close> is \<open>factor * base ^ n\<close>, for every
  \<open>n\<close>, base and factor: nothing is clamped, jittered or rounded.
\<close>

theorem C4_unclamped_unjittered_value:
  "exponentialGenerator b f None None (Jitter_boolean False) rnd !! n = f * b ^ n"
  by (simp add: exponentialGenerator_snth deterministicValue_def clamped_def
      effective_minValue_def)

text \<open>
  Claim C5, as the generator has it. The ceiling is applied when \<^verbatim>\<open>maxValue\<close> is truthy:
  for every \<^verbatim>\<open>maxValue\<close> other than \<open>0\<close> and NaN, and whatever the floor, the pre-jitter
  value of a pull is at most \<^verbatim>\<open>maxValue\<close> whenever the raw value \<^verbatim>\<open>factor * (base ** n)\<close> of
  the pull is not NaN; an infinite raw value is cut like a finite one.
\<close>

theorem C5_ceiling_when_truthy:
  assumes "truthy_number (Some mx)" and "raw \<noteq> NaN"
  shows "number_le (deterministicValue_number (Some mx) minValue raw) mx"
proof (cases minValue)
  case None
  with assms show ?thesis
    by (cases mx; cases raw)
       (auto simp: deterministicValue_number_def effective_minValue_number_def)
next
  case (Some mn)
  with assms show ?thesis
    by (cases mx; cases raw; cases mn)
       (auto simp: deterministicValue_number_def effective_minValue_number_def)
qed

text \<open>
  The test \<^verbatim>\<open>exponentialGenerator(2, 1, 32, 0, false)\<close>: at pull 7 the raw value 128 is
  cut to 32, and so is the raw value \<^verbatim>\<open>Infinity\<close> of pull 1024.
\<close>

theorem C5_ceiling_when_truthy_witness:
  "truthy_number (Some (Finite 32)) \<and> Finite 128 \<noteq> NaN \<and> Infinity \<noteq> NaN
   \<and> deterministicValue_number (Some (Finite 32)) (Some (Finite 0)) (Finite 128) = Finite 32
   \<and> number_le (deterministicValue_number (Some (Finite 32)) (Some (Finite 0)) (Finite 128))
        (Finite 32)
   \<and> number_le (deterministicValue_number (Some (Finite 32)) (Some (Finite 0)) Infinity)
        (Finite 32)"
  using C5_ceiling_when_truthy [of "Finite 32" "Finite 128" "Some (Finite 0)"]
    C5_ceiling_when_truthy [of "Finite 32" Infinity "Some (Finite 0)"]
  by (simp add: deterministicValue_number_def effective_minValue_number_def)

text \<open>
  Claim C5 as stated fails when \<^verbatim>\<open>maxValue\<close> is set to \<open>0\<close>:
  \<^verbatim>\<open>exponentialGenerator(2, 1, 0, undefined, false)\<close> yields 8 at pull 3, above the
  ceiling 0. It also fails at a pull whose raw value is NaN, such as pull 1024 of
  \<^verbatim>\<open>exponentialGenerator(2, 0, 1000, undefined, false)\<close>, where \<^verbatim>\<open>0 * Infinity\<close> is NaN:
  \<^verbatim>\<open>Math.min(1000, NaN)\<close> is NaN, which is not at most 1000.
\<close>

theorem C5_counterexample:
  "deterministicValue_number (Some (Finite 0)) None (Finite 8) = Finite 8
   \<and> \<not> number_le (deterministicValue_number (Some (Finite 0)) None (Finite 8)) (Finite 0)
   \<and> exponentialGenerator 2 1 (Some 0) None (Jitter_boolean False) (\<lambda>n. 0) !! 3 = 8
   \<and> \<not> exponentialGenerator 2 1 (Some 0) None (Jitter_boolean False) (\<lambda>n. 0) !! 3 \<le> 0
   \<and> deterministicValue_number (Some (Finite 1000)) None NaN = NaN
   \<and> \<not> number_le (deterministicValue_number (Some (Finite 1000)) None NaN) (Finite 1000)"
  by (simp add: deterministicValue_number_def effective_minValue_number_def
      exponentialGenerator_snth deterministicValue_def clamped_def effective_minValue_def)

text \<open>
  Claim C6, as the generator has it. When \<^verbatim>\<open>minValue\<close> and \<^verbatim>\<open>maxValue\<close> are both set to
  numbers other than \<open>0\<close> and NaN and \<^verbatim>\<open>minValue > maxValue\<close>, the floor the loop works
  with is \<^verbatim>\<open>maxValue\<close> (max wins); the pre-jitter value of a pull then equals \<^verbatim>\<open>maxValue\<close>,
  and so is bounded above by it, whenever the raw value \<^verbatim>\<open>factor * (base ** n)\<close> of the
  pull is not NaN.
\<close>

theorem C6_max_wins_when_truthy:
  assumes "truthy_number (Some mx)" and "truthy_number (Some mn)" and "number_less mx mn"
  shows "effective_minValue_number (Some mx) (Some mn) = Some mx
       \<and> (raw \<noteq> NaN \<longrightarrow>
            deterministicValue_number (Some mx) (Some mn) raw = mx
            \<and> number_le (deterministicValue_number (Some mx) (Some mn) raw) mx)"
  using assms
  by (cases mx; cases raw; cases mn)
     (auto simp: deterministicValue_number_def effective_minValue_number_def)

text \<open>
  The test \<^verbatim>\<open>exponentialGenerator(1, 1000, 500, 100000, false)\<close>, whose first value is
  500.
\<close>

theorem C6_max_wins_when_truthy_witness:
  "truthy_number (Some (Finite 500)) \<and> truthy_number (Some (Finite 100000))
   \<and> number_less (Finite 500) (Finite 100000) \<and> Finite 1000 \<noteq> NaN
   \<and> effective_minValue_number (Some (Finite 500)) (Some (Finite 100000)) = Some (Finite 500)
   \<and> deterministicValue_number (Some (Finite 500)) (Some (Finite 100000)) (Finite 1000)
       = Finite 500
   \<and> number_le (deterministicValue_number (Some (Finite 500)) (Some (Finite 100000)) (Finite 1000))
        (Finite 500)"
  using C6_max_wins_when_truthy [of "Finite 500" "Finite 100000" "Finite 1000"]
  by simp

text \<open>
  Claim C6 as stated fails when \<^verbatim>\<open>maxValue\<close> is set to \<open>0\<close>: with \<^verbatim>\<open>minValue = 5\<close> the
  floor stays 5, and \<^verbatim>\<open>exponentialGenerator(2, 1, 0, 5, false)\<close> starts with 5, above
  \<^verbatim>\<open>maxValue\<close>. It also fails at a pull whose raw value is NaN, such as pull 1024 of
  \<^verbatim>\<open>exponentialGenerator(2, 0, 500, 100000, false)\<close>: the floor is 500, but both clamps
  return NaN.
\<close>

theorem C6_counterexample:
  "number_less (Finite 0) (Finite 5)
   \<and> effective_minValue_number (Some (Finite 0)) (Some (Finite 5)) \<noteq> Some (Finite 0)
   \<and> deterministicValue_number (Some (Finite 0)) (Some (Finite 5)) (Finite 1) = Finite 5
   \<and> \<not> number_le (deterministicValue_number (Some (Finite 0)) (Some (Finite 5)) (Finite 1))
          (Finite 0)
   \<and> number_less (Finite 500) (Finite 100000)
   \<and> deterministicValue_number (Some (Finite 500)) (Some (Finite 100000)) NaN = NaN
   \<and> \<not> number_le (deterministicValue_number (Some (Finite 500)) (Some (Finite 100000)) NaN)
          (Finite 500)"
  by (simp add: deterministicValue_number_def effective_minValue_number_def)

text \<open>
  Claim C7, as the generator has it. Let \<open>d\<close> be the pre-jitter value of a pull and let
  the draw of \<^verbatim>\<open>Math.random()\<close> lie in \<open>[0, 1)\<close>. With a numeric jitter \<open>j\<close> in \<open>(0, 1)\<close>
  and \<open>d \<ge> 0\<close>, the value pulled lies between \<open>round ((1 - j) * d)\<close> and \<open>round d\<close>; with
  \<open>j = 0\<close> the value pulled is \<open>round d\<close>; and \<open>round d\<close> is \<open>d\<close> itself when \<open>d\<close> is an
  integer.
\<close>

theorem C7_partial_jitter_range:
  assumes "0 \<le> rnd n" and "rnd n < 1"
  shows "(0 < j \<and> j < 1 \<and> 0 \<le> deterministicValue b f mx mn n \<longrightarrow>
            Math_round ((1 - j) * deterministicValue b f mx mn n)
              \<le> exponentialGenerator b f mx mn (Jitter_number j) rnd !! n
          \<and> exponentialGenerator b f mx mn (Jitter_number j) rnd !! n
              \<le> Math_round (deterministicValue b f mx mn n))
       \<and> exponentialGenerator b f mx mn (Jitter_number 0) rnd !! n
           = Math_round (deterministicValue b f mx mn n)
       \<and> (deterministicValue b f mx mn n \<in> \<int> \<longrightarrow>
            Math_round (deterministicValue b f mx mn n) = deterministicValue b f mx mn n)"
proof -
  let ?d = "deterministicValue b f mx mn n"
  have range: "Math_round ((1 - j) * ?d) \<le> Math_round ((1 - j * rnd n) * ?d)
             \<and> Math_round ((1 - j * rnd n) * ?d) \<le> Math_round ?d"
    if j: "0 < j" "j < 1" and d: "0 \<le> ?d"
  proof -
    have "j * rnd n \<le> j * 1"
      using j assms by (intro mult_left_mono) simp_all
    then have "(1 - j) * ?d \<le> (1 - j * rnd n) * ?d"
      using d by (intro mult_right_mono) simp_all
    moreover have "0 \<le> j * rnd n"
      using j assms by simp
    then have "(1 - j * rnd n) * ?d \<le> 1 * ?d"
      using d by (intro mult_right_mono) simp_all
    ultimately show ?thesis
      by (simp add: Math_round_mono)
  qed
  show ?thesis
    using range by (simp add: exponentialGenerator_snth Math_round_Ints)
qed

text \<open>
  The test with jitteriness 0.2, \<^verbatim>\<open>exponentialGenerator(2, 1, 1000, 0, 0.2)\<close>, at pull 3
  and with the draw 0.5: the pre-jitter value is 8, the value pulled is
  \<open>round (0.9 * 8) = 7\<close>, between \<open>round (0.8 * 8) = 6\<close> and 8.
\<close>

theorem C7_partial_jitter_range_witness:
  "(0::real) \<le> 1 / 2 \<and> (1 / 2 :: real) < 1
   \<and> deterministicValue 2 1 (Some 1000) (Some 0) 3 = 8
   \<and> exponentialGenerator 2 1 (Some 1000) (Some 0) (Jitter_number (1 / 5)) (\<lambda>n. 1 / 2) !! 3 = 7
   \<and> Math_round ((1 - 1 / 5) * deterministicValue 2 1 (Some 1000) (Some 0) 3) = 6
   \<and> Math_round ((1 - 1 / 5) * deterministicValue 2 1 (Some 1000) (Some 0) 3)
       \<le> exponentialGenerator 2 1 (Some 1000) (Some 0) (Jitter_number (1 / 5)) (\<lambda>n. 1 / 2) !! 3
   \<and> exponentialGenerator 2 1 (Some 1000) (Some 0) (Jitter_number (1 / 5)) (\<lambda>n. 1 / 2) !! 3
       \<le> deterministicValue 2 1 (Some 1000) (Some 0) 3
   \<and> exponentialGenerator 2 1 (Some 1000) (Some 0) (Jitter_number 0) (\<lambda>n. 1 / 2) !! 3
       = deterministicValue 2 1 (Some 1000) (Some 0) 3"
proof -
  have d: "deterministicValue 2 1 (Some 1000) (Some 0) 3 = 8"
    by (simp add: deterministicValue_def clamped_def effective_minValue_def)
  have r: "Math_round (32 / 5) = 6" "Math_round (36 / 5) = 7" "Math_round 8 = 8"
    by (simp_all add: Math_round_def)
  show ?thesis
    using C7_partial_jitter_range [of "\<lambda>n. 1 / 2" 3 "1 / 5" 2 1 "Some 1000" "Some 0"]
    by (simp add: d r exponentialGenerator_snth)
qed

text \<open>
  Claim C7 as stated fails when the pre-jitter value is not an integer:
  \<^verbatim>\<open>exponentialGenerator(2, 1.5, undefined, undefined, 0)\<close> starts with
  \<open>round 1.5 = 2\<close>, not with the deterministic value 1.5; and with jitter 0.2 and the draw
  0 the first value is 2 again, above the deterministic value.
\<close>

theorem C7_counterexample:
  "deterministicValue 2 (3 / 2) None None 0 = 3 / 2
   \<and> exponentialGenerator 2 (3 / 2) None None (Jitter_number 0) (\<lambda>n. 0) !! 0 = 2
   \<and> exponentialGenerator 2 (3 / 2) None None (Jitter_number 0) (\<lambda>n. 0) !! 0
       \<noteq> deterministicValue 2 (3 / 2) None None 0
   \<and> (0::real) < 1 / 5 \<and> (1 / 5 :: real) < 1
   \<and> \<not> exponentialGenerator 2 (3 / 2) None None (Jitter_number (1 / 5)) (\<lambda>n. 0) !! 0
         \<le> deterministicValue 2 (3 / 2) None None 0"
  by (simp add: exponentialGenerator_shd deterministicValue_def clamped_def
      effective_minValue_def Math_round_def)

lemma generator_loop_earlier_snth:
  "generator_loop_earlier b f mx mn fj rnd k !! n =
     (if fj then Math_round (rnd (k + n) * clamped_earlier b f mx mn (k + n))
      else clamped_earlier b f mx mn (k + n))"
  by (induction n arbitrary: k) simp_all

lemma exponentialGenerator_earlier_snth:
  "exponentialGenerator_earlier b f mx mn fj rnd !! n =
     (if fj then Math_round (rnd n * clamped_earlier b f mx mn n) else clamped_earlier b f mx mn n)"
  by (simp add: exponentialGenerator_earlier_def generator_loop_earlier_snth)

text \<open>
  In the earlier generator a floor above the ceiling wins: no value pulled is below
  \<^verbatim>\<open>minValue\<close>. The reassignment of \<^verbatim>\<open>minValue\<close> in the later form is what makes the
  ceiling win.
\<close>

lemma exponentialGenerator_earlier_min_wins:
  assumes "mn \<noteq> 0" and "mn > mx"
  shows "exponentialGenerator_earlier b f (Some mx) (Some mn) False rnd !! n \<ge> mn"
  using assms by (simp add: exponentialGenerator_earlier_snth clamped_earlier_def)

text \<open>
  Claim C9. A \<^verbatim>\<open>maxValue\<close> of \<open>0\<close> and a \<^verbatim>\<open>minValue\<close> of \<open>0\<close> are each treated as an absent
  bound: every pull is what it is with \<^verbatim>\<open>undefined\<close> in that place, since both clamps
  (and the reassignment of \<^verbatim>\<open>minValue\<close>) test the truthiness of the bound. With
  \<^verbatim>\<open>maxValue = 0\<close>, no floor and no jitter, pull \<open>n\<close> is \<open>factor * base ^ n\<close>: no ceiling is
  applied. The earlier form of the generator treats a bound of \<open>0\<close> in the same way.
\<close>

theorem C9_zero_bound_is_no_bound:
  "exponentialGenerator b f (Some 0) mn j rnd !! n = exponentialGenerator b f None mn j rnd !! n
   \<and> exponentialGenerator b f mx (Some 0) j rnd !! n = exponentialGenerator b f mx None j rnd !! n
   \<and> exponentialGenerator b f (Some 0) None (Jitter_boolean False) rnd !! n = f * b ^ n
   \<and> deterministicValue b f (Some 0) None n = f * b ^ n
   \<and> exponentialGenerator_earlier b f (Some 0) mn fj rnd !! n
       = exponentialGenerator_earlier b f None mn fj rnd !! n
   \<and> exponentialGenerator_earlier b f mx (Some 0) fj rnd !! n
       = exponentialGenerator_earlier b f mx None fj rnd !! n"
  by (cases mn; cases mx)
     (simp_all add: exponentialGenerator_snth deterministicValue_def clamped_def
        effective_minValue_def exponentialGenerator_earlier_snth clamped_earlier_def)


section \<open>Properties of the retry driver\<close>

declare retry_loop.simps [simp del]

lemma after_sel:
  "outcome (after evs r) = outcome r"
  "final_state (after evs r) = final_state r"
  "trace (after evs r) = evs @ trace r"
  by (cases r; simp add: outcome_def final_state_def trace_def)+

lemma retry_loop_unfold:
  "retry_loop m p sl t fname this args k delays s =
     (case t args s of
        (Inr v, s1) \<Rightarrow> (Inr v, notify this ''retries'' fname args (of_int k) s1,
                          Invoke args (Inr v) # notified this ''retries'' fname args (of_int k))
      | (Inl e, s1) \<Rightarrow>
          if declines p e args then (Inl e, s1, [Invoke args (Inl e)])
          else if k + 1 > m then (Inl e, s1, [Invoke args (Inl e)])
          else after (Invoke args (Inl e) # notified this ''throttle'' fname args (shd delays)
                        @ [Sleep (shd delays)])
                 (retry_loop m p sl t fname this args (k + 1) (stl delays)
                    (sl (shd delays) (notify this ''throttle'' fname args (shd delays) s1))))"
  by (subst retry_loop.simps) (simp add: Let_def split: prod.splits sum.splits)

lemma retry_loop_declined:
  assumes "t args s = (Inl e, s')" and "declines p e args"
  shows "retry_loop m p sl t fname this args k delays s = (Inl e, s', [Invoke args (Inl e)])"
  using assms by (simp add: retry_loop_unfold)

lemma retry_loop_exhausted:
  assumes "t args s = (Inl e, s')" and "\<not> declines p e args" and "k + 1 > m"
  shows "retry_loop m p sl t fname this args k delays s = (Inl e, s', [Invoke args (Inl e)])"
  using assms by (simp add: retry_loop_unfold)

lemma retry_loop_again:
  assumes "t args s = (Inl e, s')" and "\<not> declines p e args" and "\<not> k + 1 > m"
  shows "retry_loop m p sl t fname this args k delays s
           = after (Invoke args (Inl e) # notified this ''throttle'' fname args (shd delays)
                      @ [Sleep (shd delays)])
               (retry_loop m p sl t fname this args (k + 1) (stl delays)
                  (sl (shd delays) (notify this ''throttle'' fname args (shd delays) s')))"
  using assms by (subst retry_loop_unfold) simp

lemma retry_loop_success:
  assumes "t args s = (Inr v, s')"
  shows "retry_loop m p sl t fname this args k delays s
           = (Inr v, notify this ''retries'' fname args (of_int k) s',
              Invoke args (Inr v) # notified this ''retries'' fname args (of_int k))"
  using assms by (simp add: retry_loop_unfold)

lemma attempts_simps [simp]:
  "attempts [] = 0"
  "attempts (Invoke a r # tr) = Suc (attempts tr)"
  "attempts (Sleep d # tr) = attempts tr"
  "attempts (Emit ev fn a pl # tr) = attempts tr"
  "attempts (tr @ tr') = attempts tr + attempts tr'"
  "attempts (notified this ev fname args payload) = 0"
  by (simp_all add: attempts_def notified_def split: option.splits)

lemma retry_loop_always_failing:
  assumes fails: "\<And>s. isl (fst (t args s))"
    and approves: "\<And>e. \<not> declines p e args"
  shows "isl (outcome (retry_loop m p sl t fname this args k delays s))
       \<and> trace (retry_loop m p sl t fname this args k delays s) \<noteq> []
       \<and> last (trace (retry_loop m p sl t fname this args k delays s))
           = Invoke args (outcome (retry_loop m p sl t fname this args k delays s))
       \<and> int (attempts (trace (retry_loop m p sl t fname this args k delays s)))
           = max 1 (m - k + 1)"
proof (induction "nat (m - k)" arbitrary: k delays s)
  case 0
  obtain e s' where t: "t args s = (Inl e, s')"
    using fails [of s] by (cases "t args s") (auto simp: isl_def)
  from 0 have "k + 1 > m" by simp
  with t approves have "retry_loop m p sl t fname this args k delays s
           = (Inl e, s', [Invoke args (Inl e)])"
    by (rule retry_loop_exhausted)
  with 0 show ?case
    by (simp add: outcome_def trace_def)
next
  case (Suc n)
  obtain e s' where t: "t args s = (Inl e, s')"
    using fails [of s] by (cases "t args s") (auto simp: isl_def)
  from Suc.hyps(2) have le: "\<not> k + 1 > m" and n: "n = nat (m - (k + 1))" by simp_all
  note IH = Suc.hyps(1) [OF n]
  have step: "retry_loop m p sl t fname this args k delays s
           = after (Invoke args (Inl e) # notified this ''throttle'' fname args (shd delays)
                      @ [Sleep (shd delays)])
               (retry_loop m p sl t fname this args (k + 1) (stl delays)
                  (sl (shd delays) (notify this ''throttle'' fname args (shd delays) s')))"
    using t approves le by (rule retry_loop_again)
  show ?case
    using IH le by (simp add: step after_sel)
qed

lemmas run_simps =
  retry_def delaySequence_def exponentialGenerator_def retry_loop_unfold notify_def notified_def
  sleep_def effective_minValue_def clamped_def outcome_def final_state_def trace_def

lemma sleeps_simps [simp]:
  "sleeps [] = []"
  "sleeps (Invoke a r # tr) = sleeps tr"
  "sleeps (Sleep d # tr) = d # sleeps tr"
  "sleeps (Emit ev fn a pl # tr) = sleeps tr"
  by (simp_all add: sleeps_def)

lemma emitted_simps [simp]:
  "emitted name [] = []"
  "emitted name (Invoke a r # tr) = emitted name tr"
  "emitted name (Sleep d # tr) = emitted name tr"
  "emitted name (Emit ev fn a pl # tr) = (if ev = name then pl # emitted name tr else emitted name tr)"
  by (simp_all add: emitted_def)

text \<open>
  Claim C1. When the target fails on each attempt and the predicate approves every
  retry, the run ends in failure, and the error it propagates is the error thrown by the
  last invocation of the target (the last observable effect of the run), itself: the
  loop throws \<^verbatim>\<open>originalError\<close>, assigned in the catch block of the same iteration, and
  makes no error of its own.
\<close>

theorem C1_exhaustion_propagates_last_error:
  assumes "\<And>s. isl (fst (targetFunction args s))"
    and "predicate options = Some p" and "\<And>e. p e args"
  shows "isl (outcome (retry options targetFunction fname thisArg args rnd s))
       \<and> trace (retry options targetFunction fname thisArg args rnd s) \<noteq> []
       \<and> last (trace (retry options targetFunction fname thisArg args rnd s))
           = Invoke args (outcome (retry options targetFunction fname thisArg args rnd s))"
  using retry_loop_always_failing [of targetFunction args "predicate options"] assms
  by (simp add: retry_def)

text \<open>
  A target that throws the number of its earlier invocations, with \<^verbatim>\<open>maxRetries = 3\<close>:
  the run fails with 2, the error of the third invocation, not with 0 or 1.
\<close>

theorem C1_exhaustion_propagates_last_error_witness:
  "(\<forall>s. isl (fst (countingCall ([] :: int list) s :: (nat + unit) \<times> nat)))
   \<and> outcome (retry (no_options\<lparr>maxRetries := Some 3, predicate := Some alwaysTrue\<rparr>)
        countingCall ''countingCall'' Null ([] :: int list) (\<lambda>n. 0) 0) = (Inl 2 :: nat + unit)
   \<and> last (trace (retry (no_options\<lparr>maxRetries := Some 3, predicate := Some alwaysTrue\<rparr>)
        countingCall ''countingCall'' Null ([] :: int list) (\<lambda>n. 0) 0))
       = Invoke [] (Inl 2 :: nat + unit)"
  using C1_exhaustion_propagates_last_error [of countingCall "[] :: int list"
      "no_options\<lparr>maxRetries := Some 3, predicate := Some alwaysTrue\<rparr>" alwaysTrue
      "''countingCall''" Null "\<lambda>n. 0" 0]
  by (simp add: run_simps no_options_def countingCall_def alwaysTrue_def)

text \<open>
  Claim C2, as the loop has it. When the target always fails and the predicate approves
  every retry, the run fails after exactly \<open>max 1 m\<close> invocations of the target, where \<open>m\<close>
  is \<^verbatim>\<open>maxRetries\<close> (1 when absent): exactly \<open>m\<close> invocations for \<open>m \<ge> 1\<close>, so that
  \<^verbatim>\<open>maxRetries = 1\<close> is one attempt and no retry, and one invocation for \<open>m \<le> 0\<close>, since
  the first attempt is made before the counter is compared.
\<close>

theorem C2_attempts_when_always_failing:
  assumes "\<And>s. isl (fst (targetFunction args s))"
    and "predicate options = Some p" and "\<And>e. p e args"
  shows "isl (outcome (retry options targetFunction fname thisArg args rnd s))
       \<and> int (attempts (trace (retry options targetFunction fname thisArg args rnd s)))
           = max 1 (default 1 (maxRetries options))"
  using retry_loop_always_failing [of targetFunction args "predicate options"] assms
  by (simp add: retry_def)

text \<open>
  The test \<^verbatim>\<open>retry({ predicate: alwaysTrue, maxRetries: 2 }, faultyCall)\<close>: two
  invocations, then the error \<^verbatim>\<open>foo\<close>.
\<close>

theorem C2_attempts_when_always_failing_witness:
  "(\<forall>s :: unit. isl (fst (faultyCall ([] :: int list) s :: (string + unit) \<times> unit)))
   \<and> outcome (retry (no_options\<lparr>maxRetries := Some 2, predicate := Some alwaysTrue\<rparr>)
        faultyCall ''faultyCall'' Null ([] :: int list) (\<lambda>n. 0) ()) = (Inl ''foo'' :: string + unit)
   \<and> attempts (trace (retry (no_options\<lparr>maxRetries := Some 2, predicate := Some alwaysTrue\<rparr>)
        (faultyCall :: int list \<Rightarrow> unit \<Rightarrow> (string + unit) \<times> unit) ''faultyCall'' Null [] (\<lambda>n. 0) ())) = 2"
  using C2_attempts_when_always_failing [of "faultyCall :: int list \<Rightarrow> unit \<Rightarrow> (string + unit) \<times> unit" "[]"
      "no_options\<lparr>maxRetries := Some 2, predicate := Some alwaysTrue\<rparr>" alwaysTrue
      "''faultyCall''" Null "\<lambda>n. 0" "()"]
  by (simp add: run_simps no_options_def faultyCall_def alwaysTrue_def)

text \<open>
  Claim C2 as stated fails for \<^verbatim>\<open>maxRetries = 0\<close>:
  \<^verbatim>\<open>retry({ predicate: alwaysTrue, maxRetries: 0 }, faultyCall)\<close> invokes the target
  once, not zero times.
\<close>

theorem C2_counterexample:
  "maxRetries (no_options\<lparr>maxRetries := Some 0, predicate := Some alwaysTrue\<rparr>
       :: (string, int, unit) BackoffOptions) = Some 0
   \<and> attempts (trace (retry (no_options\<lparr>maxRetries := Some 0, predicate := Some alwaysTrue\<rparr>)
        (faultyCall :: int list \<Rightarrow> unit \<Rightarrow> (string + unit) \<times> unit) ''faultyCall'' Null [] (\<lambda>n. 0) ())) = 1
   \<and> int (attempts (trace (retry (no_options\<lparr>maxRetries := Some 0, predicate := Some alwaysTrue\<rparr>)
        (faultyCall :: int list \<Rightarrow> unit \<Rightarrow> (string + unit) \<times> unit) ''faultyCall'' Null [] (\<lambda>n. 0) ()))) \<noteq> 0"
  by (simp add: run_simps no_options_def faultyCall_def alwaysTrue_def)

text \<open>
  Claim C3. When the first invocation of the target fails and the predicate is absent
  or returns false for that error and the arguments, the run fails with that very
  error, and the target has been invoked exactly once: nothing is retried, whatever
  \<^verbatim>\<open>maxRetries\<close> allows.
\<close>

theorem C3_declined_failure_is_terminal:
  assumes "targetFunction args s = (Inl e, s')" and "declines (predicate options) e args"
  shows "outcome (retry options targetFunction fname thisArg args rnd s) = Inl e
       \<and> attempts (trace (retry options targetFunction fname thisArg args rnd s)) = 1"
  using assms by (simp add: retry_def retry_loop_declined outcome_def trace_def)

text \<open>
  The tests \<^verbatim>\<open>retry({ predicate: alwaysFalse }, faultyCall)\<close>, here with
  \<^verbatim>\<open>maxRetries = 5\<close> and the arguments 1 and 2, and \<^verbatim>\<open>retry({}, faultyCall)\<close>.
\<close>

theorem C3_declined_failure_is_terminal_witness:
  "(faultyCall :: int list \<Rightarrow> unit \<Rightarrow> (string + unit) \<times> unit) [1, 2] () = (Inl ''foo'', ())
   \<and> declines (predicate (no_options\<lparr>maxRetries := Some 5, predicate := Some alwaysFalse\<rparr>
        :: (string, int, unit) BackoffOptions)) ''foo'' [1, 2]
   \<and> declines (predicate (no_options :: (string, int, unit) BackoffOptions)) ''foo'' [1, 2]
   \<and> outcome (retry (no_options\<lparr>maxRetries := Some 5, predicate := Some alwaysFalse\<rparr>)
        (faultyCall :: int list \<Rightarrow> unit \<Rightarrow> (string + unit) \<times> unit) ''faultyCall'' Null [1, 2] (\<lambda>n. 0) ())
       = Inl ''foo''
   \<and> attempts (trace (retry (no_options\<lparr>maxRetries := Some 5, predicate := Some alwaysFalse\<rparr>)
        (faultyCall :: int list \<Rightarrow> unit \<Rightarrow> (string + unit) \<times> unit) ''faultyCall'' Null [1, 2] (\<lambda>n. 0) ()))
       = 1"
  using C3_declined_failure_is_terminal [of "faultyCall :: int list \<Rightarrow> unit \<Rightarrow> (string + unit) \<times> unit"
      "[1, 2]" "()" "''foo''" "()" "no_options\<lparr>maxRetries := Some 5, predicate := Some alwaysFalse\<rparr>"
      "''faultyCall''" Null "\<lambda>n. 0"]
  by (simp add: no_options_def faultyCall_def alwaysFalse_def)

text \<open>
  Claim C10. When the failure of the first invocation is not retried (predicate absent
  or returning false), the loop throws before its sleep and notification steps: all a
  caller observes is one invocation of the target followed by its error, unchanged; the
  sleep function is not called, and neither \<^verbatim>\<open>throttle\<close> nor \<^verbatim>\<open>retries\<close> is emitted, so
  the program state is the one the target left.
\<close>

theorem C10_declined_failure_has_no_effects:
  assumes "targetFunction args s = (Inl e, s')" and "declines (predicate options) e args"
  shows "retry options targetFunction fname thisArg args rnd s = (Inl e, s', [Invoke args (Inl e)])
       \<and> outcome (retry options targetFunction fname thisArg args rnd s) = Inl e
       \<and> final_state (retry options targetFunction fname thisArg args rnd s) = s'
       \<and> filter is_Sleep (trace (retry options targetFunction fname thisArg args rnd s)) = []
       \<and> filter is_Emit (trace (retry options targetFunction fname thisArg args rnd s)) = []"
  using assms by (simp add: retry_def retry_loop_declined outcome_def final_state_def trace_def)

text \<open>
  \<^verbatim>\<open>matchingCall\<close> on a \<^verbatim>\<open>Decotest\<close> (an event emitter) whose options have no predicate:
  \<^verbatim>\<open>numCalled\<close> is 1 and the listeners have recorded nothing.
\<close>

theorem C10_declined_failure_has_no_effects_witness:
  "Decotest_matchingCall [] (new_Decotest 0) = (Inl ''foo'', (new_Decotest 0)\<lparr>numCalled := 1\<rparr>)
   \<and> declines (predicate (Decotest_backoffOptions\<lparr>predicate := None\<rparr>)) ''foo'' []
   \<and> retry (Decotest_backoffOptions\<lparr>predicate := None\<rparr>) Decotest_matchingCall ''matchingCall''
        (Object (Some Decotest_emit)) [] (\<lambda>n. 0) (new_Decotest 0)
       = (Inl ''foo'',
          \<lparr>offset = 10, numErrors = 0, numCalled = 1, numRetries = 0, throttleMessages = []\<rparr>,
          [Invoke [] (Inl ''foo'')])"
  using C10_declined_failure_has_no_effects [of Decotest_matchingCall "[]" "new_Decotest 0"
      "''foo''" "(new_Decotest 0)\<lparr>numCalled := 1\<rparr>" "Decotest_backoffOptions\<lparr>predicate := None\<rparr>"
      "''matchingCall''" "Object (Some Decotest_emit)" "\<lambda>n. 0"]
  by (simp add: Decotest_backoffOptions_def Decotest_matchingCall_def new_Decotest_def)

text \<open>
  Claim C8, as the loop has it. Let the target fail on its first two invocations and
  succeed on the third, with \<^verbatim>\<open>maxRetries = 3\<close>, a predicate that approves both errors
  and a binding context that can emit. Then the run resolves with the result of the
  third invocation; the sleep function is called exactly twice, with the first two
  values \<open>d0\<close> and \<open>d1\<close> of the delay sequence; \<^verbatim>\<open>throttle\<close> is emitted exactly twice, with
  \<open>d0\<close> and then \<open>d1\<close>, each before its sleep; and \<^verbatim>\<open>retries\<close> is emitted exactly once,
  with the attempt count 3. The two delays are strictly increasing exactly when
  \<open>d0 < d1\<close>, which depends on the options of the delay sequence.
\<close>

theorem C8_fails_twice_then_succeeds:
  assumes "maxRetries options = Some 3"
    and "predicate options = Some p" and "p e1 args" and "p e2 args"
    and "thisArg = Object (Some emit)"
    and "d0 = delaySequence options rnd !! 0" and "d1 = delaySequence options rnd !! 1"
    and "sl = default sleep (sleepFunction options)"
    and "targetFunction args s = (Inl e1, s1)"
    and "targetFunction args (sl d0 (emit ''throttle'' fname args d0 s1)) = (Inl e2, s2)"
    and "targetFunction args (sl d1 (emit ''throttle'' fname args d1 s2)) = (Inr v, s3)"
  shows "retry options targetFunction fname thisArg args rnd s
           = (Inr v, emit ''retries'' fname args 3 s3,
              [Invoke args (Inl e1), Emit ''throttle'' fname args d0, Sleep d0,
               Invoke args (Inl e2), Emit ''throttle'' fname args d1, Sleep d1,
               Invoke args (Inr v), Emit ''retries'' fname args 3])
       \<and> outcome (retry options targetFunction fname thisArg args rnd s) = Inr v
       \<and> attempts (trace (retry options targetFunction fname thisArg args rnd s)) = 3
       \<and> sleeps (trace (retry options targetFunction fname thisArg args rnd s)) = [d0, d1]
       \<and> emitted ''throttle'' (trace (retry options targetFunction fname thisArg args rnd s))
           = [d0, d1]
       \<and> emitted ''retries'' (trace (retry options targetFunction fname thisArg args rnd s)) = [3]
       \<and> sorted_wrt (<) (emitted ''throttle''
            (trace (retry options targetFunction fname thisArg args rnd s))) = (d0 < d1)"
proof -
  let ?D = "delaySequence options rnd"
  have d: "shd ?D = d0" "shd (stl ?D) = d1"
    using assms(6,7) by simp_all
  have third: "retry_loop 3 (Some p) sl targetFunction fname thisArg args 3 (stl (stl ?D))
                 (sl d1 (emit ''throttle'' fname args d1 s2))
               = (Inr v, emit ''retries'' fname args 3 s3,
                  [Invoke args (Inr v), Emit ''retries'' fname args 3])"
    using assms(11) by (simp add: retry_loop_success notify_def notified_def assms(5))
  have second: "retry_loop 3 (Some p) sl targetFunction fname thisArg args 2 (stl ?D)
                 (sl d0 (emit ''throttle'' fname args d0 s1))
               = (Inr v, emit ''retries'' fname args 3 s3,
                  [Invoke args (Inl e2), Emit ''throttle'' fname args d1, Sleep d1,
                   Invoke args (Inr v), Emit ''retries'' fname args 3])"
    using assms(10) assms(4) third
    by (subst retry_loop_unfold) (simp add: notify_def notified_def assms(5) d)
  have first: "retry_loop 3 (Some p) sl targetFunction fname thisArg args 1 ?D s
               = (Inr v, emit ''retries'' fname args 3 s3,
                  [Invoke args (Inl e1), Emit ''throttle'' fname args d0, Sleep d0,
                   Invoke args (Inl e2), Emit ''throttle'' fname args d1, Sleep d1,
                   Invoke args (Inr v), Emit ''retries'' fname args 3])"
    using assms(9) assms(3) second
    by (subst retry_loop_unfold) (simp add: notify_def notified_def assms(5) d)
  have run: "retry options targetFunction fname thisArg args rnd s
               = (Inr v, emit ''retries'' fname args 3 s3,
                  [Invoke args (Inl e1), Emit ''throttle'' fname args d0, Sleep d0,
                   Invoke args (Inl e2), Emit ''throttle'' fname args d1, Sleep d1,
                   Invoke args (Inr v), Emit ''retries'' fname args 3])"
    using first by (simp add: retry_def assms(1,2,8))
  show ?thesis
    unfolding run by (simp add: outcome_def trace_def)
qed

text \<open>
  The test \<^verbatim>\<open>emits retries and throttle events\<close>: \<^verbatim>\<open>new Decotest(2).add(10)\<close> resolves
  with 20 after three calls, \<^verbatim>\<open>numRetries\<close> is 3 and \<^verbatim>\<open>throttleMessages\<close> is \<open>[1, 2]\<close>.
\<close>

theorem C8_fails_twice_then_succeeds_witness:
  "maxRetries Decotest_backoffOptions = Some 3
   \<and> delaySequence Decotest_backoffOptions (\<lambda>n. 0) !! 0 = 1
   \<and> delaySequence Decotest_backoffOptions (\<lambda>n. 0) !! 1 = 2
   \<and> fst (Decotest_add [10] (new_Decotest 2)) = Inl ''bar''
   \<and> retry Decotest_backoffOptions Decotest_add ''add'' (Object (Some Decotest_emit)) [10]
        (\<lambda>n. 0) (new_Decotest 2)
       = (Inr 20,
          \<lparr>offset = 10, numErrors = 2, numCalled = 3, numRetries = 3, throttleMessages = [1, 2]\<rparr>,
          [Invoke [10] (Inl ''bar''), Emit ''throttle'' ''add'' [10] 1, Sleep 1,
           Invoke [10] (Inl ''bar''), Emit ''throttle'' ''add'' [10] 2, Sleep 2,
           Invoke [10] (Inr 20), Emit ''retries'' ''add'' [10] 3])
   \<and> sorted_wrt (<) (emitted ''throttle'' (trace (retry Decotest_backoffOptions Decotest_add
        ''add'' (Object (Some Decotest_emit)) [10] (\<lambda>n. 0) (new_Decotest 2))))"
proof -
  have d: "shd (delaySequence Decotest_backoffOptions (\<lambda>n. 0)) = 1"
    "shd (stl (delaySequence Decotest_backoffOptions (\<lambda>n. 0))) = 2"
    by (simp_all add: delaySequence_def Decotest_backoffOptions_def exponentialGenerator_def
        clamped_def effective_minValue_def)
  have o: "maxRetries Decotest_backoffOptions = Some 3"
    "predicate Decotest_backoffOptions = Some (\<lambda>err context. True)"
    "default sleep (sleepFunction Decotest_backoffOptions) = sleep"
    by (simp_all add: Decotest_backoffOptions_def)
  show ?thesis
    using C8_fails_twice_then_succeeds [of Decotest_backoffOptions "\<lambda>err context. True" "''bar''"
      "[10]" "''bar''" "Object (Some Decotest_emit)" Decotest_emit 1 "\<lambda>n. 0" 2 sleep
      Decotest_add "new_Decotest 2"
      "\<lparr>offset = 10, numErrors = 2, numCalled = 1, numRetries = 0, throttleMessages = []\<rparr>"
      "''add''"
      "\<lparr>offset = 10, numErrors = 2, numCalled = 2, numRetries = 0, throttleMessages = [1]\<rparr>"
      20
      "\<lparr>offset = 10, numErrors = 2, numCalled = 3, numRetries = 0, throttleMessages = [1, 2]\<rparr>"]
    by (simp add: d o new_Decotest_def Decotest_emit_def sleep_def trace_def)
qed

text \<open>
  Claim C8 as stated fails for a delay sequence that does not grow. With the options
  \<^verbatim>\<open>{ maxRetries: 3, maxDelayMs: 1, predicate: () => true }\<close> (those of \<^verbatim>\<open>Decotest\<close> in
  the earlier test-suite) the delays are 50 and 100 cut to the ceiling 1, and the same
  run emits \<^verbatim>\<open>throttle\<close> with 1 and 1.
\<close>

theorem C8_counterexample:
  "maxRetries (Decotest_backoffOptions\<lparr>backoffFactor := None, minDelayMs := None,
        maxDelayMs := Some 1\<rparr>) = Some 3
   \<and> retry (Decotest_backoffOptions\<lparr>backoffFactor := None, minDelayMs := None,
        maxDelayMs := Some 1\<rparr>) Decotest_add ''add''
        (Object (Some Decotest_emit)) [10] (\<lambda>n. 0) (new_Decotest 2)
       = (Inr 20,
          \<lparr>offset = 10, numErrors = 2, numCalled = 3, numRetries = 3, throttleMessages = [1, 1]\<rparr>,
          [Invoke [10] (Inl ''bar''), Emit ''throttle'' ''add'' [10] 1, Sleep 1,
           Invoke [10] (Inl ''bar''), Emit ''throttle'' ''add'' [10] 1, Sleep 1,
           Invoke [10] (Inr 20), Emit ''retries'' ''add'' [10] 3])
   \<and> \<not> sorted_wrt (<) (emitted ''throttle'' (trace (retry
        (Decotest_backoffOptions\<lparr>backoffFactor := None, minDelayMs := None,
           maxDelayMs := Some 1\<rparr>) Decotest_add ''add''
        (Object (Some Decotest_emit)) [10] (\<lambda>n. 0) (new_Decotest 2))))"
  by (simp add: run_simps Decotest_backoffOptions_def new_Decotest_def Decotest_emit_def)

section \<open>The earlier form of the loop\<close>

declare retry_loop_earlier.simps [simp del]

lemma retry_loop_earlier_unfold:
  "retry_loop_earlier m p sl t fname this args k delays s =
     (case t args s of
        (Inr v, s1) \<Rightarrow> (Inr v, notify this ''retries'' fname args (of_int k) s1,
                          Invoke args (Inr v) # notified this ''retries'' fname args (of_int k))
      | (Inl e, s1) \<Rightarrow>
          if declines p e args then (Inl (Thrown e), s1, [Invoke args (Inl e)])
          else if k + 1 > m then (Inl (RetryError m fname), s1, [Invoke args (Inl e)])
          else after_earlier [Invoke args (Inl e), Sleep (shd delays)]
                 (retry_loop_earlier m p sl t fname this args (k + 1) (stl delays)
                    (sl (shd delays) s1)))"
  by (subst retry_loop_earlier.simps) (simp add: Let_def split: prod.splits sum.splits)

lemma fst_after_earlier: "fst (after_earlier evs r) = fst r"
  by (cases r) simp

text \<open>
  The earlier loop, on a target that always fails and a predicate that approves every
  retry, ends with a new \<^verbatim>\<open>RetryError\<close>, not with the error of the target.
\<close>

lemma retry_loop_earlier_always_failing:
  assumes fails: "\<And>s. isl (fst (t args s))"
    and approves: "\<And>e. \<not> declines p e args"
  shows "fst (retry_loop_earlier m p sl t fname this args k delays s) = Inl (RetryError m fname)"
proof (induction "nat (m - k)" arbitrary: k delays s)
  case 0
  obtain e s' where t: "t args s = (Inl e, s')"
    using fails [of s] by (cases "t args s") (auto simp: isl_def)
  from 0 have "k + 1 > m" by simp
  with t approves show ?case
    by (subst retry_loop_earlier_unfold) simp
next
  case (Suc n)
  obtain e s' where t: "t args s = (Inl e, s')"
    using fails [of s] by (cases "t args s") (auto simp: isl_def)
  from Suc.hyps(2) have le: "\<not> k + 1 > m" and n: "n = nat (m - (k + 1))" by simp_all
  from Suc.hyps(1) [OF n] t approves le show ?case
    by (subst retry_loop_earlier_unfold) (simp add: fst_after_earlier)
qed

lemma retry_earlier_always_failing:
  assumes "\<And>s. isl (fst (targetFunction args s))"
    and "predicate options = Some p" and "\<And>e. p e args"
  shows "fst (retry_earlier options targetFunction fname thisArg args rnd s)
           = Inl (RetryError (default 1 (maxRetries options)) fname)"
  using retry_loop_earlier_always_failing [of targetFunction args "predicate options"] assms
  by (simp add: retry_earlier_def)

end
